theory Spec2Isabelle
  imports Main
begin

section \<open>Numbers, colours and the pixel grid of ImageEditor.ts\<close>

text \<open>
  The source file holds the program twice: the complete program, which is modelled here,
  and after it an earlier draft of the same program whose filters are stubs.

  The numbers of the program are the results of \<^verbatim>\<open>parseInt\<close> and of integer
  arithmetic on them: an integer or \<^verbatim>\<open>NaN\<close>. They are modelled as \<open>number\<close>,
  with the arithmetic the filters use written out so that \<^verbatim>\<open>NaN\<close> propagates and
  compares false as in JavaScript. The model is exact as long as the values are integers
  that a double holds exactly: all integers of magnitude below \<open>2 ^ 53\<close>, and beyond them
  for instance \<open>10 ^ 21\<close>. The rounding of the other integers, the sign of zero and
  \<^verbatim>\<open>Infinity\<close> are not represented. The engine's limits on heap size, array length and
  string length are not represented either.
\<close>

datatype number = NaN | Num int

datatype error = TypeError | IOError

fun num_add :: "number \<Rightarrow> number \<Rightarrow> number" where
  "num_add (Num a) (Num b) = Num (a + b)"
| "num_add _ _ = NaN"

fun num_sub :: "number \<Rightarrow> number \<Rightarrow> number" where
  "num_sub (Num a) (Num b) = Num (a - b)"
| "num_sub _ _ = NaN"

fun num_abs :: "number \<Rightarrow> number" where
  "num_abs (Num a) = Num \<bar>a\<bar>"
| "num_abs NaN = NaN"

fun num_gt :: "number \<Rightarrow> number \<Rightarrow> bool" where
  "num_gt (Num a) (Num b) = (a > b)"
| "num_gt _ _ = False"

fun num_min :: "number \<Rightarrow> number \<Rightarrow> number" where
  "num_min (Num a) (Num b) = Num (min a b)"
| "num_min _ _ = NaN"

fun num_max :: "number \<Rightarrow> number \<Rightarrow> number" where
  "num_max (Num a) (Num b) = Num (max a b)"
| "num_max _ _ = NaN"

text \<open>
  \<^verbatim>\<open>Math.floor(a / d)\<close> for an integer divisor \<open>d\<close>. The program divides by 3 and by
  the run length \<open>delta \<ge> 1\<close> only, so the divisor is never zero.
\<close>

fun num_floor_div :: "number \<Rightarrow> int \<Rightarrow> number" where
  "num_floor_div (Num a) d = Num (a div d)"
| "num_floor_div NaN d = NaN"

record Color =
  red :: number
  green :: number
  blue :: number

definition new_Color :: Color where
  "new_Color = \<lparr>red = Num 0, green = Num 0, blue = Num 0\<rparr>"

text \<open>
  A column of the grid is a JavaScript array of \<^verbatim>\<open>Color\<close> objects: its \<open>len\<close> and
  the elements stored under integer keys. Keys from \<open>0\<close> are array indices; a negative key
  is an ordinary property of the array object, which an assignment creates without
  touching the length. An absent key reads as \<^verbatim>\<open>undefined\<close>, here \<open>None\<close>.

  The field \<^verbatim>\<open>pixels\<close> of \<^verbatim>\<open>EditImage\<close> is the list of its columns; the outer array is
  never assigned to after the constructor. Every cell is created by its own
  \<^verbatim>\<open>new Color()\<close> (in the constructor and in \<^verbatim>\<open>read\<close>), so no two cells are the same
  object and a cell holds its colour by value in the model.
\<close>

record column =
  len :: nat
  cells :: "int \<rightharpoonup> Color"

type_synonym EditImage = "column list"

text \<open>
  \<^verbatim>\<open>Array.from({ length: n }, f)\<close> builds an array of \<open>ToLength n\<close> elements:
  none for \<^verbatim>\<open>NaN\<close> and for \<open>n \<le> 0\<close>.
\<close>

fun ToLength :: "number \<Rightarrow> nat" where
  "ToLength NaN = 0"
| "ToLength (Num n) = nat n"

definition new_column :: "number \<Rightarrow> column" where
  "new_column height =
     \<lparr>len = ToLength height,
      cells = (\<lambda>y. if 0 \<le> y \<and> y < int (ToLength height) then Some new_Color else None)\<rparr>"

definition new_EditImage :: "number \<Rightarrow> number \<Rightarrow> EditImage" where
  "new_EditImage width height = replicate (ToLength width) (new_column height)"

definition getWidth :: "EditImage \<Rightarrow> nat" where
  "getWidth img = length img"

text \<open>\<^verbatim>\<open>this.pixels[0].length\<close>: a TypeError when there is no column 0.\<close>

definition getHeight :: "EditImage \<Rightarrow> error + nat" where
  "getHeight img = (case img of [] \<Rightarrow> Inl TypeError | c # _ \<Rightarrow> Inr (len c))"

text \<open>
  \<^verbatim>\<open>this.pixels[x][y]\<close>: when \<open>x\<close> is not an index of \<^verbatim>\<open>pixels\<close>, \<^verbatim>\<open>pixels[x]\<close> is
  \<^verbatim>\<open>undefined\<close> and indexing it throws a TypeError; otherwise the read of key \<open>y\<close>
  yields the element or \<^verbatim>\<open>undefined\<close>, and does not throw.
\<close>

definition img_get :: "EditImage \<Rightarrow> int \<Rightarrow> int \<Rightarrow> error + Color option" where
  "img_get img x y =
     (if 0 \<le> x \<and> x < int (length img) then Inr (cells (img ! nat x) y)
      else Inl TypeError)"

text \<open>
  \<^verbatim>\<open>this.pixels[x][y] = c\<close>: the same TypeError for \<open>x\<close>; otherwise the assignment
  stores \<open>c\<close> under key \<open>y\<close>, and an index \<open>y\<close> at or beyond the length extends the array.
\<close>

definition store :: "column \<Rightarrow> int \<Rightarrow> Color \<Rightarrow> column" where
  "store col y c =
     \<lparr>len = (if 0 \<le> y then max (len col) (nat y + 1) else len col),
      cells = (cells col)(y \<mapsto> c)\<rparr>"

definition img_set :: "EditImage \<Rightarrow> int \<Rightarrow> int \<Rightarrow> Color \<Rightarrow> error + EditImage" where
  "img_set img x y c =
     (if 0 \<le> x \<and> x < int (length img) then Inr (img[nat x := store (img ! nat x) y c])
      else Inl TypeError)"

text \<open>
  A grid in the sense of the specification: \<open>w\<close> columns, each of length \<open>h\<close> with a colour
  at every index below \<open>h\<close>.
\<close>

definition grid :: "EditImage \<Rightarrow> nat \<Rightarrow> nat \<Rightarrow> bool" where
  "grid img w h \<longleftrightarrow>
     length img = w \<and>
     (\<forall>x < w. len (img ! x) = h \<and> (\<forall>y < h. cells (img ! x) (int y) \<noteq> None))"

text \<open>The colour at an index of a grid, for stating results.\<close>

definition cell :: "EditImage \<Rightarrow> nat \<Rightarrow> nat \<Rightarrow> Color" where
  "cell img x y = the (cells (img ! x) (int y))"

section \<open>The filters\<close>

text \<open>
  A \<^verbatim>\<open>for\<close> loop over the values \<open>ks\<close> of its counter, stopping at the first exception.
\<close>

primrec for_each :: "'k list \<Rightarrow> ('k \<Rightarrow> 's \<Rightarrow> error + 's) \<Rightarrow> 's \<Rightarrow> error + 's" where
  "for_each [] body s = Inr s"
| "for_each (k # ks) body s =
     (case body k s of Inl e \<Rightarrow> Inl e | Inr s' \<Rightarrow> for_each ks body s')"

text \<open>
  \<^verbatim>\<open>const c: Color = image.get(x, y)\<close> followed by a read of a field of \<open>c\<close>: the field
  access throws a TypeError when \<open>get\<close> returned \<^verbatim>\<open>undefined\<close>.
\<close>

definition get_Color :: "EditImage \<Rightarrow> nat \<Rightarrow> nat \<Rightarrow> error + Color" where
  "get_Color img x y =
     (case img_get img (int x) (int y) of
        Inl e \<Rightarrow> Inl e
      | Inr None \<Rightarrow> Inl TypeError
      | Inr (Some c) \<Rightarrow> Inr c)"

text \<open>
  Assignments to the fields of the object that \<open>get (x, y)\<close> returned: the grid holds that
  object, so the cell at \<open>(x, y)\<close> has the new fields afterwards. Lengths do not change.
\<close>

definition assign :: "EditImage \<Rightarrow> nat \<Rightarrow> nat \<Rightarrow> Color \<Rightarrow> EditImage" where
  "assign img x y c = img[x := (img ! x)\<lparr>cells := (cells (img ! x))(int y \<mapsto> c)\<rparr>]"

text \<open>
  The loop nest of \<open>invert\<close>, \<open>grayscale\<close> and \<open>motionblur\<close>:
  \<^verbatim>\<open>for (x = 0; x < image.getWidth(); ++x) for (y = 0; y < image.getHeight(); ++y)\<close>.
  The source evaluates the two bounds at every test; the bodies assign to fields of
  colours only, which leaves both bounds as they are (lemmas \<open>invert_cell_dims\<close>,
  \<open>grayscale_cell_dims\<close> and \<open>motionblur_cell_dims\<close>), so each bound is read when its loop
  is entered.
\<close>

definition for_y :: "(nat \<Rightarrow> EditImage \<Rightarrow> error + EditImage) \<Rightarrow> EditImage \<Rightarrow> error + EditImage" where
  "for_y body img =
     (case getHeight img of Inl e \<Rightarrow> Inl e | Inr h \<Rightarrow> for_each [0..<h] body img)"

definition for_xy :: "(nat \<Rightarrow> nat \<Rightarrow> EditImage \<Rightarrow> error + EditImage) \<Rightarrow> EditImage \<Rightarrow> error + EditImage" where
  "for_xy body img = for_each [0..<getWidth img] (\<lambda>x. for_y (body x)) img"

subsection \<open>invert\<close>

definition invert_Color :: "Color \<Rightarrow> Color" where
  "invert_Color c =
     \<lparr>red = num_sub (Num 255) (red c),
      green = num_sub (Num 255) (green c),
      blue = num_sub (Num 255) (blue c)\<rparr>"

definition invert_cell :: "nat \<Rightarrow> nat \<Rightarrow> EditImage \<Rightarrow> error + EditImage" where
  "invert_cell x y img =
     (case get_Color img x y of
        Inl e \<Rightarrow> Inl e
      | Inr curColor \<Rightarrow> Inr (assign img x y (invert_Color curColor)))"

definition invert :: "EditImage \<Rightarrow> error + EditImage" where
  "invert img = for_xy invert_cell img"

subsection \<open>grayscale\<close>

definition grayscale_Color :: "Color \<Rightarrow> Color" where
  "grayscale_Color c =
     (let grayLevel = num_floor_div (num_add (num_add (red c) (green c)) (blue c)) 3;
          grayLevel = num_max (Num 0) (num_min grayLevel (Num 255))
      in \<lparr>red = grayLevel, green = grayLevel, blue = grayLevel\<rparr>)"

definition grayscale_cell :: "nat \<Rightarrow> nat \<Rightarrow> EditImage \<Rightarrow> error + EditImage" where
  "grayscale_cell x y img =
     (case get_Color img x y of
        Inl e \<Rightarrow> Inl e
      | Inr curColor \<Rightarrow> Inr (assign img x y (grayscale_Color curColor)))"

definition grayscale :: "EditImage \<Rightarrow> error + EditImage" where
  "grayscale img = for_xy grayscale_cell img"

subsection \<open>emboss\<close>

text \<open>The three comparisons of \<open>emboss\<close>, in the order of the source, from \<open>diff = 0\<close>.\<close>

definition emboss_diff :: "Color \<Rightarrow> Color \<Rightarrow> number" where
  "emboss_diff curColor upLeftColor =
     (let diff = Num 0;
          diff = (if num_gt (num_abs (num_sub (red curColor) (red upLeftColor))) (num_abs diff)
                  then num_sub (red curColor) (red upLeftColor) else diff);
          diff = (if num_gt (num_abs (num_sub (green curColor) (green upLeftColor))) (num_abs diff)
                  then num_sub (green curColor) (green upLeftColor) else diff);
          diff = (if num_gt (num_abs (num_sub (blue curColor) (blue upLeftColor))) (num_abs diff)
                  then num_sub (blue curColor) (blue upLeftColor) else diff)
      in diff)"

definition emboss_Color :: "number \<Rightarrow> Color" where
  "emboss_Color diff =
     (let grayLevel = num_add (Num 128) diff;
          grayLevel = num_max (Num 0) (num_min grayLevel (Num 255))
      in \<lparr>red = grayLevel, green = grayLevel, blue = grayLevel\<rparr>)"

definition emboss_cell :: "nat \<Rightarrow> nat \<Rightarrow> EditImage \<Rightarrow> error + EditImage" where
  "emboss_cell x y img =
     (case get_Color img x y of
        Inl e \<Rightarrow> Inl e
      | Inr curColor \<Rightarrow>
          (if x > 0 \<and> y > 0 then
             (case get_Color img (x - 1) (y - 1) of
                Inl e \<Rightarrow> Inl e
              | Inr upLeftColor \<Rightarrow>
                  Inr (assign img x y (emboss_Color (emboss_diff curColor upLeftColor))))
           else Inr (assign img x y (emboss_Color (Num 0)))))"

text \<open>
  \<^verbatim>\<open>for (x = image.getWidth() - 1; x >= 0; --x) for (y = image.getHeight() - 1; y >= 0; --y)\<close>:
  both counters run downwards.
\<close>

definition emboss_column :: "nat \<Rightarrow> EditImage \<Rightarrow> error + EditImage" where
  "emboss_column x img =
     (case getHeight img of
        Inl e \<Rightarrow> Inl e
      | Inr h \<Rightarrow> for_each (rev [0..<h]) (emboss_cell x) img)"

definition emboss :: "EditImage \<Rightarrow> error + EditImage" where
  "emboss img = for_each (rev [0..<getWidth img]) emboss_column img"

subsection \<open>motionblur\<close>

text \<open>
  The body of \<^verbatim>\<open>for (i = x + 1; i <= maxX; ++i)\<close>. \<^verbatim>\<open>curColor\<close> is the object at
  \<open>(x, y)\<close>; its current fields are read from the grid and the sums stored there.
\<close>

definition add_Color :: "Color \<Rightarrow> Color \<Rightarrow> Color" where
  "add_Color c tmp =
     \<lparr>red = num_add (red c) (red tmp),
      green = num_add (green c) (green tmp),
      blue = num_add (blue c) (blue tmp)\<rparr>"

definition motionblur_add :: "nat \<Rightarrow> nat \<Rightarrow> nat \<Rightarrow> EditImage \<Rightarrow> error + EditImage" where
  "motionblur_add x y i img =
     (case get_Color img i y of
        Inl e \<Rightarrow> Inl e
      | Inr tmpColor \<Rightarrow>
          (case get_Color img x y of
             Inl e \<Rightarrow> Inl e
           | Inr curColor \<Rightarrow> Inr (assign img x y (add_Color curColor tmpColor))))"

definition div_Color :: "Color \<Rightarrow> int \<Rightarrow> Color" where
  "div_Color c delta =
     \<lparr>red = num_floor_div (red c) delta,
      green = num_floor_div (green c) delta,
      blue = num_floor_div (blue c) delta\<rparr>"

definition motionblur_cell :: "int \<Rightarrow> nat \<Rightarrow> nat \<Rightarrow> EditImage \<Rightarrow> error + EditImage" where
  "motionblur_cell blur_length x y img =
     (let maxX = min (int (getWidth img) - 1) (int x + blur_length - 1) in
      case for_each [x + 1 ..< nat (maxX + 1)] (motionblur_add x y) img of
        Inl e \<Rightarrow> Inl e
      | Inr img' \<Rightarrow>
          (let delta = maxX - int x + 1 in
           case get_Color img' x y of
             Inl e \<Rightarrow> Inl e
           | Inr curColor \<Rightarrow> Inr (assign img' x y (div_Color curColor delta))))"

text \<open>
  \<open>run\<close> calls \<open>motionblur\<close> with the result of \<^verbatim>\<open>parseInt\<close> only after rejecting
  \<^verbatim>\<open>NaN\<close>, so its parameter \<^verbatim>\<open>length\<close> is an integer here, \<open>blur_length\<close>.
\<close>

definition motionblur :: "EditImage \<Rightarrow> int \<Rightarrow> error + EditImage" where
  "motionblur img blur_length =
     (if blur_length < 1 then Inr img else for_xy (motionblur_cell blur_length) img)"

section \<open>The codec: read and write\<close>

text \<open>
  A text is a list of characters, each standing for the UTF-16 code unit of its value;
  code units beyond 255 are not represented. \<open>is_space\<close> is the class \<^verbatim>\<open>\s\<close> of the
  regular expression in \<^verbatim>\<open>file.split(/\s+/)\<close>, which is also the white space that
  \<^verbatim>\<open>parseInt\<close> skips: tab, line feed, vertical tab, form feed, carriage return, space and
  no-break space.
\<close>

definition is_space :: "char \<Rightarrow> bool" where
  "is_space c \<longleftrightarrow>
     c = CHR 0x09 \<or> c = CHR 0x0A \<or> c = CHR 0x0B \<or> c = CHR 0x0C \<or> c = CHR 0x0D \<or>
     c = CHR 0x20 \<or> c = CHR 0xA0"

text \<open>
  \<^verbatim>\<open>file.split(/\s+/)\<close>: the pieces between the maximal runs of white space. A text
  that starts or ends with white space has an empty first or last piece, and the empty text
  has one empty piece. \<open>split_from in_run cur\<close> scans the rest of the text, \<open>cur\<close> being
  the piece read so far, reversed, and \<open>in_run\<close> telling that the scan is inside a run.
\<close>

fun split_from :: "bool \<Rightarrow> string \<Rightarrow> string \<Rightarrow> string list" where
  "split_from in_run cur [] = [rev cur]"
| "split_from in_run cur (c # cs) =
     (if is_space c then
        (if in_run then split_from True cur cs else rev cur # split_from True [] cs)
      else split_from False (c # cur) cs)"

definition split_ws :: "string \<Rightarrow> string list" where
  "split_ws file = split_from False [] file"

text \<open>
  \<^verbatim>\<open>parseInt(string)\<close> without a radix, after ECMAScript: skip leading white space, take
  a sign, take a prefix \<^verbatim>\<open>0x\<close> or \<^verbatim>\<open>0X\<close> (the radix is then 16, otherwise 10), read the
  longest run of digits of the radix; \<^verbatim>\<open>NaN\<close> when that run is empty.
\<close>

definition digit_of :: "char \<Rightarrow> nat option" where
  "digit_of c =
     (let n = (of_char c :: nat) in
      if 48 \<le> n \<and> n \<le> 57 then Some (n - 48)
      else if 97 \<le> n \<and> n \<le> 102 then Some (n - 87)
      else if 65 \<le> n \<and> n \<le> 70 then Some (n - 55)
      else None)"

definition is_digit :: "nat \<Rightarrow> char \<Rightarrow> bool" where
  "is_digit R c = (case digit_of c of None \<Rightarrow> False | Some d \<Rightarrow> d < R)"

definition digits_value :: "nat \<Rightarrow> string \<Rightarrow> nat" where
  "digits_value R Z = foldl (\<lambda>a c. a * R + the (digit_of c)) 0 Z"

definition parseInt :: "string \<Rightarrow> number" where
  "parseInt string =
     (let S = dropWhile is_space string;
          sign = (if S \<noteq> [] \<and> hd S = CHR ''-'' then - 1 else 1 :: int);
          S = (if S \<noteq> [] \<and> (hd S = CHR ''+'' \<or> hd S = CHR ''-'') then tl S else S);
          hex = (take 2 S = ''0x'' \<or> take 2 S = ''0X'');
          R = (if hex then 16 else 10);
          S = (if hex then drop 2 S else S);
          Z = takeWhile (is_digit R) S
      in if Z = [] then NaN else Num (sign * int (digits_value R Z)))"

text \<open>
  \<^verbatim>\<open>tokens[t]\<close> as \<^verbatim>\<open>parseInt\<close> sees it: an index outside the array yields
  \<^verbatim>\<open>undefined\<close>, which \<^verbatim>\<open>parseInt\<close> converts to the string \<^verbatim>\<open>"undefined"\<close>.
\<close>

definition token :: "string list \<Rightarrow> int \<Rightarrow> string" where
  "token tokens t = (if 0 \<le> t \<and> t < int (length tokens) then tokens ! nat t else ''undefined'')"

text \<open>
  The body of the two loops of \<open>read\<close>; the state is the token counter \<open>t\<close> and the image.
\<close>

definition read_pixel :: "string list \<Rightarrow> nat \<Rightarrow> nat \<Rightarrow> int \<times> EditImage \<Rightarrow> error + int \<times> EditImage" where
  "read_pixel tokens y x s =
     (case s of (t, img) \<Rightarrow>
        let color = new_Color;
            t = t + 1; color = color\<lparr>red := parseInt (token tokens t)\<rparr>;
            t = t + 1; color = color\<lparr>green := parseInt (token tokens t)\<rparr>;
            t = t + 1; color = color\<lparr>blue := parseInt (token tokens t)\<rparr>
        in case img_set img (int x) (int y) color of
             Inl e \<Rightarrow> Inl e
           | Inr img' \<Rightarrow> Inr (t, img'))"

text \<open>
  \<open>read\<close> from the text of the file on. The loops \<^verbatim>\<open>for (y = 0; y < height; ++y)\<close> and
  \<^verbatim>\<open>for (x = 0; x < width; ++x)\<close> run \<open>ToLength height\<close> and \<open>ToLength width\<close> times: not at
  all when the bound is \<^verbatim>\<open>NaN\<close> or not positive.
\<close>

definition read_text :: "string \<Rightarrow> error + EditImage" where
  "read_text file =
     (let tokens = split_ws file;
          t = - 1;
          t = t + 1;
          t = t + 1; width = parseInt (token tokens t);
          t = t + 1; height = parseInt (token tokens t);
          img = new_EditImage width height;
          t = t + 1
      in case for_each [0..<ToLength height]
                (\<lambda>y. for_each [0..<ToLength width] (read_pixel tokens y)) (t, img) of
           Inl e \<Rightarrow> Inl e
         | Inr (t, img) \<Rightarrow> Inr img)"

text \<open>
  The file system as \<open>run\<close> uses it: the text of each readable file, and the paths that can
  be opened for writing. \<^verbatim>\<open>readFileSync\<close> and \<^verbatim>\<open>openSync\<close> throw otherwise.
\<close>

record filesystem =
  files :: "string \<rightharpoonup> string"
  writable :: "string \<Rightarrow> bool"

definition read :: "filesystem \<Rightarrow> string \<Rightarrow> error + EditImage" where
  "read fs filepath =
     (case files fs filepath of None \<Rightarrow> Inl IOError | Some file \<Rightarrow> read_text file)"

text \<open>
  The conversion of a number to a string in a template literal, after ECMAScript's
  \<^verbatim>\<open>Number::toString\<close>: with \<open>n\<close> the number of decimal digits of the value and \<open>k\<close> the
  number of its digits up to the last non-zero one, the plain decimal digits when
  \<open>n \<le> 21\<close>, and otherwise the first digit, the other \<open>k - 1\<close> digits after a point if there
  are any, and the exponent \<^verbatim>\<open>e+\<close>\<open>(n - 1)\<close>.
\<close>

definition digit_char :: "nat \<Rightarrow> char" where
  "digit_char d = ''0123456789'' ! d"

fun digits :: "nat \<Rightarrow> string" where
  "digits n = (if n < 10 then [digit_char n] else digits (n div 10) @ [digit_char (n mod 10)])"

declare digits.simps [simp del]

definition nat_toString :: "nat \<Rightarrow> string" where
  "nat_toString v =
     (let ds = digits v; n = length ds in
      if n \<le> 21 then ds
      else
        let s = rev (dropWhile (\<lambda>c. c = CHR ''0'') (rev ds)) in
        (if length s = 1 then s else hd s # CHR ''.'' # tl s) @ ''e+'' @ digits (n - 1))"

fun toString :: "number \<Rightarrow> string" where
  "toString NaN = ''NaN''"
| "toString (Num i) = (if i < 0 then CHR ''-'' # nat_toString (nat (- i)) else nat_toString (nat i))"

text \<open>
  \<open>write\<close>: the text that the calls of \<^verbatim>\<open>writeSync\<close> put into the file, in order. An
  exception ends the writing; what had been written before it stays in the file, which the
  model does not return.
\<close>

definition write_pixel :: "EditImage \<Rightarrow> nat \<Rightarrow> nat \<Rightarrow> string \<Rightarrow> error + string" where
  "write_pixel img y x out =
     (case get_Color img x y of
        Inl e \<Rightarrow> Inl e
      | Inr color \<Rightarrow>
          Inr (out @ (if x = 0 then [] else '' '') @
               toString (red color) @ '' '' @ toString (green color) @ '' '' @
               toString (blue color)))"

definition write_row :: "EditImage \<Rightarrow> nat \<Rightarrow> string \<Rightarrow> error + string" where
  "write_row img y out =
     (case for_each [0..<getWidth img] (write_pixel img y) out of
        Inl e \<Rightarrow> Inl e
      | Inr out \<Rightarrow> Inr (out @ [CHR 0x0A]))"

definition write_text :: "EditImage \<Rightarrow> error + string" where
  "write_text img =
     (let out = ''P3'' @ [CHR 0x0A] in
      case getHeight img of
        Inl e \<Rightarrow> Inl e
      | Inr h \<Rightarrow>
          let out = out @ toString (Num (int (getWidth img))) @ '' '' @
                    toString (Num (int h)) @ [CHR 0x0A];
              out = out @ ''255'' @ [CHR 0x0A]
          in for_each [0..<h] (write_row img) out)"

section \<open>The driver\<close>

text \<open>
  What a run does to the outside, in order: the usage message on the standard output, the
  output file written in full, a \<open>write\<close> that opened the output file and then threw, and an
  exception caught and reported on the error stream by the handler of \<open>run\<close>.
\<close>

datatype event =
  Usage
| Written string string
| WriteFailed string error
| Reported error

definition write_file :: "filesystem \<Rightarrow> EditImage \<Rightarrow> string \<Rightarrow> event list" where
  "write_file fs img filePath =
     (if writable fs filePath then
        (case write_text img of
           Inl e \<Rightarrow> [WriteFailed filePath e]
         | Inr out \<Rightarrow> [Written filePath out])
      else [Reported IOError])"

text \<open>
  A filter mutates the image in place and \<open>run\<close> goes on to \<open>write\<close>; an exception of the
  filter reaches the handler instead.
\<close>

definition filter_then_write ::
  "filesystem \<Rightarrow> error + EditImage \<Rightarrow> string \<Rightarrow> event list" where
  "filter_then_write fs filtered outputFile =
     (case filtered of Inl e \<Rightarrow> [Reported e] | Inr img \<Rightarrow> write_file fs img outputFile)"

definition run :: "filesystem \<Rightarrow> string list \<Rightarrow> event list" where
  "run fs args =
     (if length args < 3 then [Usage]
      else
        let inputFile = args ! 0; outputFile = args ! 1; filter = args ! 2 in
        case read fs inputFile of
          Inl e \<Rightarrow> [Reported e]
        | Inr img \<Rightarrow>
            if filter = ''grayscale'' \<or> filter = ''greyscale'' then
              (if length args \<noteq> 3 then [Usage]
               else filter_then_write fs (grayscale img) outputFile)
            else if filter = ''invert'' then
              (if length args \<noteq> 3 then [Usage]
               else filter_then_write fs (invert img) outputFile)
            else if filter = ''emboss'' then
              (if length args \<noteq> 3 then [Usage]
               else filter_then_write fs (emboss img) outputFile)
            else if filter = ''motionblur'' then
              (if length args \<noteq> 4 then [Usage]
               else
                 (case parseInt (args ! 3) of
                    NaN \<Rightarrow> [Usage]
                  | Num blur_length \<Rightarrow>
                      if blur_length < 0 then [Usage]
                      else filter_then_write fs (motionblur img blur_length) outputFile))
            else Usage # write_file fs img outputFile)"

section \<open>Definitions for stating the results\<close>


text \<open>A colour with integer channels, and the 2 by 2 grid of the specification's scenario:
  row 0 is \<open>(10,20,30) (40,50,60)\<close>, row 1 is \<open>(70,80,90) (100,110,120)\<close>; a column of the
  model holds the cells of one \<open>x\<close>.\<close>

definition rgb :: "int \<Rightarrow> int \<Rightarrow> int \<Rightarrow> Color" where
  "rgb r g b = \<lparr>red = Num r, green = Num g, blue = Num b\<rparr>"

definition example_grid :: EditImage where
  "example_grid =
     [\<lparr>len = 2, cells = [0 \<mapsto> rgb 10 20 30, 1 \<mapsto> rgb 70 80 90]\<rparr>,
      \<lparr>len = 2, cells = [0 \<mapsto> rgb 40 50 60, 1 \<mapsto> rgb 100 110 120]\<rparr>]"

text \<open>
  The specification of \<open>motionblur\<close>, in its words: per channel, the floor of the sum of
  the original values of the cells \<open>(x, y)\<close> through \<open>(min (x + length - 1) (width - 1), y)\<close>
  divided by the number of cells in that run.
\<close>

fun num_sum :: "number list \<Rightarrow> number" where
  "num_sum [] = Num 0"
| "num_sum (v # vs) = num_add v (num_sum vs)"















definition one_pixel :: "Color \<Rightarrow> EditImage" where
  "one_pixel c = [\<lparr>len = 1, cells = [0 \<mapsto> c]\<rparr>]"

definition example_fs :: filesystem where
  "example_fs = \<lparr>files = [''in.ppm'' \<mapsto> ''P3 1 1 255 1 2 3''], writable = (\<lambda>path. True)\<rparr>"


section \<open>Bounds of get and set\<close>





section \<open>Loop rules\<close>




lemma for_each_preserves:
  assumes "\<And>k s s'. body k s = Inr s' \<Longrightarrow> f s' = f s"
  shows "for_each ks body s = Inr s' \<Longrightarrow> f s' = f s"
proof (induction ks arbitrary: s)
  case Nil
  then show ?case by simp
next
  case (Cons k ks)
  then obtain t where t: "body k s = Inr t" "for_each ks body t = Inr s'"
    by (auto split: sum.splits)
  from Cons.IH [OF t(2)] assms [OF t(1)] show ?case by simp
qed

section \<open>Grids under assignment\<close>

lemma getWidth_grid: "grid img w h \<Longrightarrow> getWidth img = w"
  by (simp add: grid_def getWidth_def)

lemma getHeight_grid: "grid img w h \<Longrightarrow> 0 < w \<Longrightarrow> getHeight img = Inr h"
  by (cases img) (auto simp: grid_def getHeight_def)

lemma get_Color_grid: "grid img w h \<Longrightarrow> x < w \<Longrightarrow> y < h \<Longrightarrow> get_Color img x y = Inr (cell img x y)"
  by (auto simp: grid_def get_Color_def img_get_def cell_def split: option.splits)



lemma getWidth_assign: "getWidth (assign img x y c) = getWidth img"
  by (simp add: getWidth_def assign_def)

lemma getHeight_assign: "getHeight (assign img x y c) = getHeight img"
  by (cases img; cases x) (simp_all add: getHeight_def assign_def)

text \<open>
  The bodies of the loops of \<open>invert\<close>, \<open>grayscale\<close> and \<open>motionblur\<close> leave the width and
  the height of the image as they are, so the bounds of these loops do not change while
  they run.
\<close>

lemma invert_cell_dims:
  "invert_cell x y img = Inr img' \<Longrightarrow> getWidth img' = getWidth img \<and> getHeight img' = getHeight img"
  by (auto simp: invert_cell_def getWidth_assign getHeight_assign split: sum.splits)

lemma grayscale_cell_dims:
  "grayscale_cell x y img = Inr img' \<Longrightarrow> getWidth img' = getWidth img \<and> getHeight img' = getHeight img"
  by (auto simp: grayscale_cell_def getWidth_assign getHeight_assign split: sum.splits)

lemma motionblur_add_dims:
  "motionblur_add x y i img = Inr img' \<Longrightarrow>
     (getWidth img', getHeight img') = (getWidth img, getHeight img)"
  by (auto simp: motionblur_add_def getWidth_assign getHeight_assign split: sum.splits)

lemma motionblur_cell_dims:
  assumes "motionblur_cell n x y img = Inr img'"
  shows "getWidth img' = getWidth img \<and> getHeight img' = getHeight img"
proof -
  from assms obtain u c where
    u: "for_each [x + 1 ..< nat (min (int (getWidth img) - 1) (int x + n - 1) + 1)] (motionblur_add x y) img = Inr u"
    and i: "img' = assign u x y c"
    by (auto simp: motionblur_cell_def Let_def split: sum.splits)
  have "(getWidth u, getHeight u) = (getWidth img, getHeight img)"
    by (rule for_each_preserves [OF _ u]) (rule motionblur_add_dims)
  with i show ?thesis by (simp add: getWidth_assign getHeight_assign)
qed



section \<open>invert\<close>

lemma less_2_iff: "(n::nat) < 2 \<longleftrightarrow> n = 0 \<or> n = 1"
  by auto

lemma example_grid_grid: "grid example_grid 2 2"
  by (auto simp: grid_def example_grid_def less_2_iff)






section \<open>grayscale\<close>





section \<open>motionblur\<close>

lemma assign_same:
  assumes "grid img w h" "x < w" "y < h"
  shows "assign img x y (cell img x y) = img"
proof -
  from assms have "cells (img ! x) (int y) = Some (cell img x y)"
    by (auto simp: grid_def cell_def)
  then have "(cells (img ! x))(int y \<mapsto> cell img x y) = cells (img ! x)"
    by (rule map_upd_triv)
  then show ?thesis by (simp add: assign_def)
qed

lemma for_each_same:
  "(\<And>k. k \<in> set ks \<Longrightarrow> body k s = Inr s) \<Longrightarrow> for_each ks body s = Inr s"
  by (induction ks) simp_all

lemma div_Color_1: "div_Color c 1 = c"
proof -
  have "num_floor_div n 1 = n" for n by (cases n) simp_all
  then show ?thesis by (simp add: div_Color_def)
qed

text \<open>
  C9. On every grid, \<open>motionblur\<close> with length 0 and with length 1 both succeed and return the
  grid as it was.
\<close>

theorem motionblur_noop:
  assumes "grid img w h"
  shows "motionblur img 0 = Inr img \<and> motionblur img 1 = Inr img"
proof -
  have cell1: "motionblur_cell 1 x y img = Inr img" if "x < w" "y < h" for x y
  proof -
    have "min (int (getWidth img) - 1) (int x + 1 - 1) = int x"
      using that assms by (simp add: getWidth_grid)
    then show ?thesis
      using that assms
      by (simp add: motionblur_cell_def Let_def get_Color_grid div_Color_1 assign_same)
  qed
  have "for_y (motionblur_cell 1 x) img = Inr img" if "x < w" for x
  proof -
    have "for_each [0..<h] (motionblur_cell 1 x) img = Inr img"
      by (rule for_each_same) (simp add: cell1 that)
    then show ?thesis using that assms by (simp add: for_y_def getHeight_grid)
  qed
  then have "for_xy (motionblur_cell 1) img = Inr img"
    unfolding for_xy_def getWidth_grid [OF assms] by (intro for_each_same) simp
  then show ?thesis by (simp add: motionblur_def)
qed

theorem motionblur_noop_witness:
  "grid example_grid 2 2 \<and>
   motionblur example_grid 0 = Inr example_grid \<and> motionblur example_grid 1 = Inr example_grid"
  using motionblur_noop [OF example_grid_grid] example_grid_grid by simp






lemma num_sum_Num: "num_sum (map Num vs) = Num (sum_list vs)"
  by (induction vs) simp_all



section \<open>emboss\<close>







section \<open>read\<close>




section \<open>Numbers as text\<close>

















section \<open>The tokens of a written file\<close>














section \<open>Reading a written file\<close>








section \<open>read on any text\<close>


lemma parseInt_examples:
  "parseInt ''3'' = Num 3" "parseInt ''2'' = Num 2" "parseInt ''undefined'' = NaN"
  "parseInt ''1'' = Num 1" "parseInt ''300'' = Num 300" "parseInt ''-7'' = Num (- 7)"
  "parseInt ''0'' = Num 0"
  by (simp_all add: parseInt_def is_space_def is_digit_def digit_of_def digits_value_def)







section \<open>The round trip and the driver\<close>


lemma read_one_pixel:
  assumes "split_ws file = [tag, ''1'', ''1'', maxval, r, g, b] @ others"
  shows "read_text file = Inr (one_pixel \<lparr>red = parseInt r, green = parseInt g, blue = parseInt b\<rparr>)"
proof -
  have pt: "((\<lambda>y::int. if 0 \<le> y \<and> y < 1 then Some new_Color else None)(0 \<mapsto> c)) y =
      (Map.empty(0 \<mapsto> c)) y" for c :: Color and y
  proof (cases "y = 0")
    case True
    then show ?thesis by simp
  next
    case False
    then have "\<not> (0 \<le> y \<and> y < 1)" by arith
    with False show ?thesis by simp
  qed
  have "(\<lambda>y::int. if 0 \<le> y \<and> y < 1 then Some new_Color else None)(0 \<mapsto> c) = [0 \<mapsto> c]"
    for c :: Color
    by (rule ext) (rule pt)
  then show ?thesis
    by (simp add: read_text_def assms Let_def token_def parseInt_examples read_pixel_def new_Color_def
      new_EditImage_def new_column_def img_set_def store_def one_pixel_def)
qed

lemma write_one_pixel:
  "write_text (one_pixel c) =
     Inr (''P3'' @ [CHR 0x0A] @ ''1 1'' @ [CHR 0x0A] @ ''255'' @ [CHR 0x0A] @
          toString (red c) @ '' '' @ toString (green c) @ '' '' @ toString (blue c) @ [CHR 0x0A])"
  by (simp add: write_text_def one_pixel_def getHeight_def getWidth_def write_row_def write_pixel_def
      get_Color_def img_get_def nat_toString_def digits.simps digit_char_def)

lemma toString_examples:
  "toString (Num 1000000000000000000000) = ''1e+21''" "toString (Num 0) = ''0''"
  "toString (Num 1) = ''1''" "toString (Num 2) = ''2''" "toString (Num 3) = ''3''"
  by (simp_all add: nat_toString_def digits.simps digit_char_def)






text \<open>
  C1 at a filter name that is not recognised: \<open>run\<close> prints the usage message and then
  writes the unfiltered image to the output file. The last \<^verbatim>\<open>else\<close> of the chain calls
  \<^verbatim>\<open>this.usage()\<close> without the \<^verbatim>\<open>return\<close> that follows every other call of it.
\<close>

theorem run_unknown_filter_writes:
  "run example_fs [''in.ppm'', ''out.ppm'', ''sepia''] =
     [Usage, Written ''out.ppm''
        (''P3'' @ [CHR 0x0A] @ ''1 1'' @ [CHR 0x0A] @ ''255'' @ [CHR 0x0A] @ ''1 2 3'' @ [CHR 0x0A])]"
proof -
  have s: "split_ws ''P3 1 1 255 1 2 3'' = [''P3'', ''1'', ''1'', ''255'', ''1'', ''2'', ''3''] @ []"
    by (simp add: split_ws_def is_space_def)
  have p: "parseInt ''2'' = Num 2" "parseInt ''3'' = Num 3" "parseInt ''1'' = Num 1"
    by (simp_all add: parseInt_examples)
  have "read example_fs ''in.ppm'' = Inr (one_pixel (rgb 1 2 3))"
    using read_one_pixel [OF s] by (simp add: read_def example_fs_def p rgb_def)
  then show ?thesis
    using write_one_pixel [of "rgb 1 2 3"]
    by (simp add: run_def write_file_def example_fs_def rgb_def toString_examples del: toString.simps)
qed

text \<open>
  With a recognised filter and a wrong number of arguments, \<open>run\<close> prints the usage message
  and writes nothing, once the input file has been read.
\<close>

lemma run_wrong_count:
  assumes "3 \<le> length args" and "read fs (args ! 0) = Inr img"
    and "args ! 2 \<in> {''grayscale'', ''greyscale'', ''invert'', ''emboss''} \<and> length args \<noteq> 3 \<or>
         args ! 2 = ''motionblur'' \<and> length args \<noteq> 4"
  shows "run fs args = [Usage]"
  using assms by (auto simp: run_def Let_def)

end
